theory Spec2Isabelle
  imports Complex_Main "HOL-Library.Sublist"
begin

section \<open>Data model of \<^verbatim>\<open>mcp_integration.py\<close>\<close>

text \<open>
  Exceptions are values.  \<open>KeyError k\<close> is a dictionary access \<open>d[k]\<close> on a missing key,
  \<open>ValueError\<close> is what numpy raises on arrays whose shapes do not fit, \<open>IndexError\<close> is
  a list read out of range.  The remaining three are what the collaborators of
  \<open>load_data\<close> may raise: \<open>open\<close>, \<open>json.load\<close> and the constructor of the embedding model.
\<close>

datatype error =
    KeyError string
  | ValueError
  | IndexError
  | OSError
  | JSONDecodeError
  | ModelInitError

text \<open>
  A document is the dictionary that \<open>json.load\<close> produced for one record: a map from field
  names to string values.  The code reads the keys \<open>title\<close>, \<open>content\<close> and \<open>id\<close>.
  A string is the UTF-8 text of the Python string, so that concatenation and the
  substring test of the code are those of the byte lists.
\<close>

type_synonym document = "string \<rightharpoonup> string"

text \<open>
  The program computes with what \<open>str\<close> and numpy provide.  None of that code is in the
  repository, so the model takes it as a parameter: the type \<open>'f\<close> of the numbers in an
  array (float32 here), and the operations the program calls on them.  \<open>np_dot\<close> is the
  product of one row of the matrix with the vector, \<open>np_norm\<close> is \<open>np.linalg.norm\<close> of one
  vector, \<open>np_multiply\<close> and \<open>np_divide\<close> work on two numbers of the array type,
  \<open>np_add\<close> adds a Python float to one, \<open>np_argsort\<close> is \<open>np.argsort\<close> on a
  one-dimensional array and \<open>str_lower\<close> is \<open>str.lower\<close>.  Whatever these operations round,
  absorb or overflow is theirs; the program's own part is which of them it calls, on
  what, and in which order.
\<close>

record 'f library =
  str_lower :: "string \<Rightarrow> string"
  np_dot :: "'f list \<Rightarrow> 'f list \<Rightarrow> 'f"
  np_norm :: "'f list \<Rightarrow> 'f"
  np_multiply :: "'f \<Rightarrow> 'f \<Rightarrow> 'f"
  np_add :: "'f \<Rightarrow> real \<Rightarrow> 'f"
  np_divide :: "'f \<Rightarrow> 'f \<Rightarrow> 'f"
  np_argsort :: "'f list \<Rightarrow> nat list"

text \<open>An embedding model encodes every text on its own, deterministically.\<close>

type_synonym 'f encoder = "string \<Rightarrow> 'f list"

text \<open>
  The attributes of \<open>CompanyDataMCPServer\<close>; \<open>None\<close> is Python's \<open>None\<close>.  The embeddings
  are the rows of a matrix.  The list without rows stands for what the model returns for
  no texts at all: an array of shape \<open>(0,)\<close>, which is not a matrix.
\<close>

record 'f server =
  data_path :: string
  company_data :: "document list"
  embedding_model :: "'f encoder option"
  doc_embeddings :: "'f list list option"

text \<open>
  What \<open>load_data\<close> meets outside the program: \<open>json_load p\<close> is the outcome of opening the
  file at path \<open>p\<close> and parsing it, \<open>sentence_transformer\<close> the outcome of constructing the
  pinned model.
\<close>

record 'f environment =
  json_load :: "string \<Rightarrow> error + document list"
  sentence_transformer :: "error + 'f encoder"

text \<open>One entry of a response, and the envelope \<open>handle_request\<close> returns.  In
  \<open>format_for_llm\<close> the \<open>results\<close> key is read with \<open>.get\<close>, so it may be missing.\<close>

record result_entry =
  title :: string
  content :: string
  source :: string

record response =
  results :: "result_entry list option"
  query :: string
  total_results :: int

section \<open>Dictionary access and strings\<close>

definition getitem :: "document \<Rightarrow> string \<Rightarrow> error + string" where
  "getitem d k = (case d k of None \<Rightarrow> Inl (KeyError k) | Some v \<Rightarrow> Inr v)"

text \<open>Python's \<open>a in b\<close> on strings: \<open>a\<close> occurs in \<open>b\<close> as a contiguous block.\<close>

fun str_in :: "string \<Rightarrow> string \<Rightarrow> bool" where
  "str_in a [] = (a = [])"
| "str_in a (c # cs) = (prefix a (c # cs) \<or> str_in a cs)"

section \<open>\<open>load_data\<close>\<close>

text \<open>Line 24: \<open>[doc['title'] + ' ' + doc['content'] for doc in self.company_data]\<close>.\<close>

fun doc_texts :: "document list \<Rightarrow> error + string list" where
  "doc_texts [] = Inr []"
| "doc_texts (doc # docs) =
     (case getitem doc ''title'' of
        Inl e \<Rightarrow> Inl e
      | Inr t \<Rightarrow>
         (case getitem doc ''content'' of
            Inl e \<Rightarrow> Inl e
          | Inr c \<Rightarrow>
             (case doc_texts docs of
                Inl e \<Rightarrow> Inl e
              | Inr ts \<Rightarrow> Inr ((t @ '' '' @ c) # ts))))"

text \<open>The \<open>except\<close> branch of \<open>load_data\<close>.\<close>

definition load_failed :: "'f server \<Rightarrow> 'f server" where
  "load_failed s = s\<lparr>company_data := [], doc_embeddings := None, embedding_model := None\<rparr>"

definition load_data :: "'f environment \<Rightarrow> 'f server \<Rightarrow> 'f server" where
  "load_data env s =
     (case json_load env (data_path s) of
        Inl e \<Rightarrow> load_failed s
      | Inr docs \<Rightarrow>
         (case sentence_transformer env of
            Inl e \<Rightarrow> load_failed s
          | Inr model \<Rightarrow>
             (case doc_texts docs of
                Inl e \<Rightarrow> load_failed s
              | Inr texts \<Rightarrow>
                  s\<lparr>company_data := docs,
                    embedding_model := Some model,
                    doc_embeddings := Some (map model texts)\<rparr>)))"

text \<open>\<open>__init__\<close>: store the path, then load.\<close>

definition init :: "'f environment \<Rightarrow> string \<Rightarrow> 'f server" where
  "init env path =
     load_data env
       \<lparr>data_path = path, company_data = [], embedding_model = None, doc_embeddings = None\<rparr>"

section \<open>\<open>search_data\<close>\<close>

subsection \<open>Keyword path\<close>

text \<open>
  Line 39: the comprehension reads \<open>doc['title']\<close> of every document and, by the
  short-circuit \<open>or\<close>, \<open>doc['content']\<close> only when the title does not match.  Both are
  lowered with \<open>str.lower\<close>; \<open>query_l\<close> is the lowered query of line 38.
\<close>

fun keyword_search :: "'f library \<Rightarrow> string \<Rightarrow> document list \<Rightarrow> error + document list" where
  "keyword_search lib query_l [] = Inr []"
| "keyword_search lib query_l (doc # docs) =
     (case getitem doc ''title'' of
        Inl e \<Rightarrow> Inl e
      | Inr t \<Rightarrow>
         if str_in query_l (str_lower lib t) then
           (case keyword_search lib query_l docs of
              Inl e \<Rightarrow> Inl e
            | Inr found \<Rightarrow> Inr (doc # found))
         else
           (case getitem doc ''content'' of
              Inl e \<Rightarrow> Inl e
            | Inr c \<Rightarrow>
               (case keyword_search lib query_l docs of
                  Inl e \<Rightarrow> Inl e
                | Inr found \<Rightarrow>
                    Inr (if str_in query_l (str_lower lib c) then doc # found else found))))"

subsection \<open>Embedding path\<close>

text \<open>The debug loops print \<open>doc['title']\<close>; all they can do to the result is raise.\<close>

fun titles :: "document list \<Rightarrow> error + string list" where
  "titles [] = Inr []"
| "titles (doc # docs) =
     (case getitem doc ''title'' of
        Inl e \<Rightarrow> Inl e
      | Inr t \<Rightarrow> (case titles docs of Inl e \<Rightarrow> Inl e | Inr ts \<Rightarrow> Inr (t # ts)))"

text \<open>
  Line 50: \<open>np.dot(self.doc_embeddings, query_emb) /
  (np.linalg.norm(self.doc_embeddings, axis=1) * np.linalg.norm(query_emb) + 1e-10)\<close>,
  elementwise over the rows.  The shape-\<open>(0,)\<close> array of an empty corpus is rejected by
  \<open>np.dot\<close> (by the norm along axis 1 when the query vector is empty too); a matrix whose
  rows do not have the length of the query vector is rejected by \<open>np.dot\<close>.
\<close>

definition similarities :: "'f library \<Rightarrow> 'f list list \<Rightarrow> 'f list \<Rightarrow> error + 'f list" where
  "similarities lib embs query_emb =
     (if embs = [] then Inl ValueError
      else if list_all (\<lambda>row. length row = length query_emb) embs then
        Inr (map2 (\<lambda>d n. np_divide lib d
                            (np_add lib (np_multiply lib n (np_norm lib query_emb)) (1 / 10 ^ 10)))
               (map (\<lambda>row. np_dot lib row query_emb) embs)
               (map (np_norm lib) embs))
      else Inl ValueError)"

text \<open>Python's slice \<open>xs[:k]\<close>; a negative \<open>k\<close> counts from the end.\<close>

definition slice_to :: "'a list \<Rightarrow> int \<Rightarrow> 'a list" where
  "slice_to xs k = (if 0 \<le> k then take (nat k) xs else take (length xs - nat (- k)) xs)"

text \<open>Lines 54 and 55 without the dictionary lookups:
  \<open>np.argsort(similarities)[::-1][:top_k]\<close>.\<close>

definition top_indices :: "'f library \<Rightarrow> 'f list \<Rightarrow> int \<Rightarrow> nat list" where
  "top_indices lib sims top_k = slice_to (rev (np_argsort lib sims)) top_k"

definition search_data ::
  "'f library \<Rightarrow> 'f server \<Rightarrow> string \<Rightarrow> int \<Rightarrow> real \<Rightarrow> error + document list" where
  "search_data lib s q top_k similarity_threshold =
     (case (embedding_model s, doc_embeddings s) of
        (Some model, Some embs) \<Rightarrow>
          (case titles (company_data s) of
             Inl e \<Rightarrow> Inl e
           | Inr _ \<Rightarrow>
              (case similarities lib embs (model q) of
                 Inl e \<Rightarrow> Inl e
               | Inr sims \<Rightarrow>
                   if length (company_data s) < length sims then Inl IndexError
                   else Inr (map (\<lambda>idx. company_data s ! idx) (top_indices lib sims top_k))))
      | _ \<Rightarrow> keyword_search lib (str_lower lib q) (company_data s))"

section \<open>\<open>handle_request\<close> and \<open>format_for_llm\<close>\<close>

fun format_results :: "document list \<Rightarrow> error + result_entry list" where
  "format_results [] = Inr []"
| "format_results (r # rs) =
     (case getitem r ''title'' of
        Inl e \<Rightarrow> Inl e
      | Inr t \<Rightarrow>
         (case getitem r ''content'' of
            Inl e \<Rightarrow> Inl e
          | Inr c \<Rightarrow>
             (case getitem r ''id'' of
                Inl e \<Rightarrow> Inl e
              | Inr i \<Rightarrow>
                 (case format_results rs of
                    Inl e \<Rightarrow> Inl e
                  | Inr formatted \<Rightarrow>
                      Inr (\<lparr>title = t, content = c, source = ''Company Database - '' @ i\<rparr>
                             # formatted)))))"

text \<open>A request is a dictionary with string values; \<open>request.get('query', '')\<close>.\<close>

definition handle_request ::
  "'f library \<Rightarrow> 'f server \<Rightarrow> (string \<rightharpoonup> string) \<Rightarrow> error + response" where
  "handle_request lib s request =
     (let q = (case request ''query'' of None \<Rightarrow> [] | Some v \<Rightarrow> v) in
      case search_data lib s q 3 (3 / 10) of
        Inl e \<Rightarrow> Inl e
      | Inr found \<Rightarrow>
         (case format_results found of
            Inl e \<Rightarrow> Inl e
          | Inr formatted \<Rightarrow>
              Inr \<lparr>results = Some formatted, query = q,
                   total_results = int (length formatted)\<rparr>))"

definition no_info :: string where
  "no_info = ''No relevant company information found.''"

definition newline :: char where
  "newline = CHR 0x0A"

definition header :: string where
  "header = ''COMPANY INFORMATION:'' @ [newline, newline]"

text \<open>The two \<open>+=\<close> of the loop body, for one result.\<close>

definition entry_text :: "result_entry \<Rightarrow> string" where
  "entry_text r = (''--- '' @ title r @ '' ---'' @ [newline]) @ (content r @ [newline, newline])"

definition format_for_llm :: "response option \<Rightarrow> string" where
  "format_for_llm resp =
     (case resp of
        None \<Rightarrow> no_info
      | Some r \<Rightarrow>
         (case results r of
            None \<Rightarrow> no_info
          | Some [] \<Rightarrow> no_info
          | Some rs \<Rightarrow> foldl (\<lambda>formatted_text res. formatted_text @ entry_text res) header rs))"

section \<open>Notions of the specification\<close>

text \<open>
  The cosine similarity of one document vector \<open>d\<close> and the query vector \<open>q\<close> as the
  specification writes it, \<open>(d \<cdot> q) / (\<parallel>d\<parallel> \<cdot> \<parallel>q\<parallel> + 1e-10)\<close>, in the arithmetic of
  the library.
\<close>

definition cosine_similarity :: "'f library \<Rightarrow> 'f list \<Rightarrow> 'f list \<Rightarrow> 'f" where
  "cosine_similarity lib d q =
     np_divide lib (np_dot lib d q)
       (np_add lib (np_multiply lib (np_norm lib d) (np_norm lib q)) (1 / 10 ^ 10))"

text \<open>
  What numpy documents of \<open>np.argsort\<close>: the result lists every index of the array once,
  and reading the array in that order gives ascending values.  The order on \<open>'f\<close> is the
  one the sort compares with.  Nothing is said about equal values: the default sort
  is not stable.
\<close>

definition argsort_contract :: "('f::linorder list \<Rightarrow> nat list) \<Rightarrow> bool" where
  "argsort_contract f \<longleftrightarrow>
     (\<forall>xs. distinct (f xs) \<and> set (f xs) = {..<length xs} \<and> sorted (map (\<lambda>i. xs ! i) (f xs)))"

text \<open>The index list \<open>idxs\<close> lists equal values of \<open>xs\<close> in ascending index order.\<close>

definition ties_in_index_order :: "'f list \<Rightarrow> nat list \<Rightarrow> bool" where
  "ties_in_index_order xs idxs = sorted_wrt (\<lambda>i j. xs ! i = xs ! j \<longrightarrow> i < j) idxs"

text \<open>The entry \<open>handle_request\<close> builds for a document that has all three fields.\<close>

definition entry_of :: "document \<Rightarrow> result_entry" where
  "entry_of d =
     \<lparr>title = the (d ''title''), content = the (d ''content''),
      source = ''Company Database - '' @ the (d ''id'')\<rparr>"

section \<open>Example data\<close>

subsection \<open>A library\<close>

text \<open>
  An instance of the library to run the examples with, on real numbers.
  \<open>ascii_lower\<close> is \<open>str.lower\<close> on ASCII text; it is not \<open>str.lower\<close> elsewhere.
\<close>

definition ascii_lower_char :: "char \<Rightarrow> char" where
  "ascii_lower_char c =
     (let n = (of_char c :: nat) in if 65 \<le> n \<and> n \<le> 90 then char_of (n + 32) else c)"

definition ascii_lower :: "string \<Rightarrow> string" where
  "ascii_lower s = map ascii_lower_char s"

text \<open>
  Adding a small constant to a float32 number leaves the number as it is when the
  constant is below half the distance to the next float32 number; \<open>2 ^ 25\<close> times the
  constant not exceeding the number is enough for that.  In the other case the sum is
  taken exactly.
\<close>

definition absorbing_add :: "real \<Rightarrow> real \<Rightarrow> real" where
  "absorbing_add x c = (if \<bar>c\<bar> * 2 ^ 25 \<le> \<bar>x\<bar> then x else x + c)"

text \<open>Sorting the indices by insertion: one sort that meets the contract of
  \<open>np.argsort\<close>.  It keeps equal values in index order, which \<open>np.argsort\<close> does not
  promise.\<close>

definition insertion_argsort :: "real list \<Rightarrow> nat list" where
  "insertion_argsort xs = sort_key (\<lambda>i. xs ! i) [0..<length xs]"

text \<open>
  Dot product, Euclidean norm, product and quotient are exact.  The example vectors are
  chosen so that float32 gives the same numbers: small integers, norms that are powers
  of two, quotients that are \<open>1\<close> or \<open>1/2\<close>.
\<close>

definition example_library :: "real library" where
  "example_library =
     \<lparr>str_lower = ascii_lower,
      np_dot = (\<lambda>u v. sum_list (map2 (*) u v)),
      np_norm = (\<lambda>v. sqrt (sum_list (map (\<lambda>x. x * x) v))),
      np_multiply = (*),
      np_add = absorbing_add,
      np_divide = (/),
      np_argsort = insertion_argsort\<rparr>"

subsection \<open>Documents, a model and servers\<close>

text \<open>The corpus of the end-to-end scenario, and a third document for ties.\<close>

definition profile_doc :: document where
  "profile_doc =
     [''id'' \<mapsto> ''1'', ''title'' \<mapsto> ''Company Profile'',
      ''content'' \<mapsto> ''TechCorp was founded in 2010'']"

definition products_doc :: document where
  "products_doc =
     [''id'' \<mapsto> ''2'', ''title'' \<mapsto> ''Products'',
      ''content'' \<mapsto> ''TechCorp offers TechAssist'']"

definition history_doc :: document where
  "history_doc =
     [''id'' \<mapsto> ''3'', ''title'' \<mapsto> ''History'',
      ''content'' \<mapsto> ''Two engineers founded it'']"

text \<open>A record without a \<open>content\<close> field: a malformed source.\<close>

definition broken_doc :: document where
  "broken_doc = [''id'' \<mapsto> ''4'', ''title'' \<mapsto> ''Untitled'']"

text \<open>
  A model with four dimensions: texts about the founding get a unit vector, all others
  a longer vector in another direction.  Against the unit vector the longer one has the
  larger dot product and the smaller cosine.
\<close>

definition toy_model :: "real encoder" where
  "toy_model text = (if str_in ''founded'' text then [1, 0, 0, 0] else [2, 2, 2, 2])"

definition example_files :: "string \<Rightarrow> error + document list" where
  "example_files p =
     (if p = ''company_data.json'' then Inr [profile_doc, products_doc]
      else if p = ''ties.json'' then Inr [profile_doc, history_doc]
      else if p = ''empty.json'' then Inr []
      else if p = ''broken.json'' then Inr [profile_doc, broken_doc]
      else if p = ''garbled.json'' then Inl JSONDecodeError
      else Inl OSError)"

definition example_env :: "real environment" where
  "example_env = \<lparr>json_load = example_files, sentence_transformer = Inr toy_model\<rparr>"

definition offline_env :: "real environment" where
  "offline_env = \<lparr>json_load = example_files, sentence_transformer = Inl ModelInitError\<rparr>"

text \<open>The two-document corpus with its embeddings, as \<open>load_data\<close> leaves it.\<close>

definition example_server :: "real server" where
  "example_server =
     \<lparr>data_path = ''company_data.json'', company_data = [profile_doc, products_doc],
      embedding_model = Some toy_model,
      doc_embeddings = Some [[1, 0, 0, 0], [2, 2, 2, 2]]\<rparr>"

text \<open>Two documents with the same embedding, as \<open>load_data\<close> leaves them.\<close>

definition ties_server :: "real server" where
  "ties_server =
     \<lparr>data_path = ''ties.json'', company_data = [profile_doc, history_doc],
      embedding_model = Some toy_model,
      doc_embeddings = Some [[1, 0, 0, 0], [1, 0, 0, 0]]\<rparr>"

text \<open>
  Two embeddings of the same direction and different length.  Their exact cosines
  against a unit vector differ by less than float32 resolves: the computed scores are
  both \<open>1\<close>.
\<close>

definition scaled_server :: "real server" where
  "scaled_server =
     \<lparr>data_path = ''company_data.json'', company_data = [profile_doc, products_doc],
      embedding_model = Some toy_model,
      doc_embeddings = Some [[2, 0, 0, 0], [1, 0, 0, 0]]\<rparr>"

text \<open>The corpus file that holds the empty list, as \<open>load_data\<close> leaves it.\<close>

definition empty_server :: "real server" where
  "empty_server =
     \<lparr>data_path = ''empty.json'', company_data = [],
      embedding_model = Some toy_model, doc_embeddings = Some []\<rparr>"

text \<open>The two-document corpus with the model switched off: the keyword path on a corpus
  that is not empty.\<close>

definition keyword_server :: "real server" where
  "keyword_server =
     \<lparr>data_path = ''company_data.json'', company_data = [profile_doc, products_doc],
      embedding_model = None, doc_embeddings = None\<rparr>"

section \<open>Auxiliary facts\<close>

subsection \<open>Strings and the formatter\<close>

lemma foldl_append_concat: "foldl (\<lambda>acc x. acc @ f x) a xs = a @ concat (map f xs)"
  by (induction xs arbitrary: a) simp_all

lemma format_for_llm_nonempty:
  "format_for_llm (Some r) = header @ concat (map entry_text rs)"
  if "results r = Some rs" "rs \<noteq> []"
  using that by (cases rs) (simp_all add: format_for_llm_def foldl_append_concat)

lemma header_text: "header = ''COMPANY INFORMATION:\<newline>\<newline>''"
  by (simp add: header_def newline_def)

lemma entry_text_text:
  "entry_text = (\<lambda>e. ''--- '' @ title e @ '' ---\<newline>'' @ content e @ ''\<newline>\<newline>'')"
  by (rule ext) (simp add: entry_text_def newline_def)

lemma str_in_iff_sublist: "str_in a b \<longleftrightarrow> sublist a b"
  by (induction b) (auto simp: sublist_Cons_right)

lemma str_in_empty: "str_in [] b"
  by (cases b) simp_all

subsection \<open>Dictionary reads that succeed\<close>

lemma titles_present:
  "\<forall>d\<in>set docs. d ''title'' \<noteq> None \<Longrightarrow> titles docs = Inr (map (\<lambda>d. the (d ''title'')) docs)"
  by (induction docs) (auto simp: getitem_def)

lemma doc_texts_fields:
  "doc_texts docs = Inr texts \<Longrightarrow>
     length texts = length docs \<and>
     (\<forall>d\<in>set docs. d ''title'' \<noteq> None \<and> d ''content'' \<noteq> None)"
  by (induction docs arbitrary: texts)
     (auto simp: getitem_def split: option.splits sum.splits)

lemma keyword_search_filter:
  assumes "\<forall>d\<in>set docs. d ''title'' \<noteq> None \<and> d ''content'' \<noteq> None"
  shows "keyword_search lib ql docs =
           Inr (filter (\<lambda>d. str_in ql (str_lower lib (the (d ''title''))) \<or>
                            str_in ql (str_lower lib (the (d ''content'')))) docs)"
  using assms by (induction docs) (auto simp: getitem_def)

lemma keyword_search_empty_query:
  assumes "\<forall>d\<in>set docs. d ''title'' \<noteq> None"
  shows "keyword_search lib [] docs = Inr docs"
  using assms by (induction docs) (auto simp: getitem_def str_in_empty)

lemma format_results_present:
  assumes "\<forall>d\<in>set found. d ''title'' \<noteq> None \<and> d ''content'' \<noteq> None \<and> d ''id'' \<noteq> None"
  shows "format_results found = Inr (map entry_of found)"
  using assms by (induction found) (auto simp: getitem_def entry_of_def)

subsection \<open>The ranking\<close>

lemma argsort_contract_length:
  assumes "argsort_contract f"
  shows "length (f xs) = length xs"
proof -
  have "distinct (f xs)" "set (f xs) = {..<length xs}"
    using assms by (simp_all add: argsort_contract_def)
  then show ?thesis
    using distinct_card [of "f xs"] by simp
qed

lemma argsort_contract_descending:
  assumes "argsort_contract f"
  shows "sorted_wrt (\<lambda>a b. xs ! b \<le> xs ! a) (rev (f xs))"
proof -
  have "sorted (map (\<lambda>i. xs ! i) (f xs))"
    using assms by (simp add: argsort_contract_def)
  then have "sorted_wrt (\<lambda>a b. xs ! a \<le> xs ! b) (f xs)"
    by (simp add: sorted_map)
  then show ?thesis
    by (simp add: sorted_wrt_rev)
qed

lemma top_indices_take:
  "top_indices lib sims k =
     take (if 0 \<le> k then nat k else length (np_argsort lib sims) - nat (- k))
       (rev (np_argsort lib sims))"
  by (simp add: top_indices_def slice_to_def)

lemma sorted_wrt_take_rest:
  assumes "sorted_wrt P xs" "x \<in> set (take m xs)" "y \<in> set xs" "y \<notin> set (take m xs)"
  shows "P x y"
proof -
  have "set xs = set (take m xs) \<union> set (drop m xs)"
    by (metis append_take_drop_id set_append)
  with assms(3,4) have "y \<in> set (drop m xs)" by simp
  moreover have "sorted_wrt P (take m xs @ drop m xs)" using assms(1) by simp
  ultimately show ?thesis using assms(2) unfolding sorted_wrt_append by blast
qed

text \<open>What every slice of the reversed \<open>argsort\<close> has, whatever the sort does with ties.\<close>

lemma top_indices_ranking:
  fixes lib :: "'f::linorder library" and sims :: "'f list" and k :: int
  assumes "argsort_contract (np_argsort lib)"
  defines "idxs \<equiv> top_indices lib sims k"
  shows "distinct idxs"
    and "set idxs \<subseteq> {..<length sims}"
    and "sorted_wrt (\<lambda>a b. sims ! b \<le> sims ! a) idxs"
    and "\<And>i j. i \<in> set idxs \<Longrightarrow> j < length sims \<Longrightarrow> j \<notin> set idxs \<Longrightarrow> sims ! j \<le> sims ! i"
proof -
  let ?L = "rev (np_argsort lib sims)"
  obtain m where idxs: "idxs = take m ?L"
    unfolding idxs_def top_indices_take by blast
  have perm: "distinct ?L" "set ?L = {..<length sims}"
    using assms(1) by (simp_all add: argsort_contract_def)
  have L: "sorted_wrt (\<lambda>a b. sims ! b \<le> sims ! a) ?L"
    using assms(1) by (rule argsort_contract_descending)
  show "distinct idxs"
    unfolding idxs using perm(1) by (rule distinct_take)
  show "set idxs \<subseteq> {..<length sims}"
    unfolding idxs using set_take_subset [of m ?L] perm(2) by simp
  show "sorted_wrt (\<lambda>a b. sims ! b \<le> sims ! a) idxs"
    unfolding idxs using L by (rule sorted_wrt_take)
  show "sims ! j \<le> sims ! i"
    if "i \<in> set idxs" "j < length sims" "j \<notin> set idxs" for i j
  proof -
    have "j \<in> set ?L" using that(2) perm(2) by simp
    then show ?thesis
      using sorted_wrt_take_rest [OF L, of i m j] that(1,3) unfolding idxs by blast
  qed
qed

lemma top_indices_length:
  fixes lib :: "'f::linorder library"
  assumes "argsort_contract (np_argsort lib)" and "0 \<le> k"
  shows "int (length (top_indices lib sims k)) = min k (int (length sims))"
  using assms(2) argsort_contract_length [OF assms(1), of sims]
  by (simp add: top_indices_take)

lemma insertion_argsort_contract: "argsort_contract insertion_argsort"
  by (auto simp: argsort_contract_def insertion_argsort_def sorted_sort_key)

subsection \<open>The two paths of \<open>search_data\<close>\<close>

lemma map2_map_map: "map2 f (map g xs) (map h xs) = map (\<lambda>x. f (g x) (h x)) xs"
  by (induction xs) simp_all

lemma similarities_cosine:
  assumes "embs \<noteq> []" and "\<forall>row\<in>set embs. length row = length qv"
  shows "similarities lib embs qv = Inr (map (\<lambda>row. cosine_similarity lib row qv) embs)"
  using assms
  by (simp add: similarities_def list_all_iff map2_map_map cosine_similarity_def)

lemma search_data_embedding:
  assumes "embedding_model s = Some model" "doc_embeddings s = Some embs"
    and "length embs = length (company_data s)"
    and "\<forall>row\<in>set embs. length row = length (model q)"
    and "\<forall>d\<in>set (company_data s). d ''title'' \<noteq> None"
    and "company_data s \<noteq> []"
  shows "search_data lib s q k t =
           Inr (map (\<lambda>i. company_data s ! i)
                  (top_indices lib (map (\<lambda>row. cosine_similarity lib row (model q)) embs) k))"
proof -
  have "embs \<noteq> []" using assms(3,6) by auto
  then show ?thesis
    using assms by (simp add: search_data_def titles_present similarities_cosine)
qed

lemma search_data_keyword:
  assumes "embedding_model s = None \<or> doc_embeddings s = None"
  shows "search_data lib s q k t = keyword_search lib (str_lower lib q) (company_data s)"
  using assms by (auto simp: search_data_def split: option.splits)

lemma search_data_no_rows:
  assumes "embedding_model s = Some model" "doc_embeddings s = Some []" "company_data s = []"
  shows "search_data lib s q k t = Inl ValueError"
  using assms by (simp add: search_data_def similarities_def)

subsection \<open>States that \<open>load_data\<close> can leave\<close>

text \<open>
  After \<open>load_data\<close> the server is in one of two shapes: the empty keyword-only state of
  the \<open>except\<close> branch, or the embedding state with one embedding per document, every
  document carrying \<open>title\<close> and \<open>content\<close>, and every embedding an output of the model.
  The hypotheses of the theorems on the embedding path describe the second shape.
\<close>

lemma load_data_reachable:
  "(company_data (load_data env s) = [] \<and> embedding_model (load_data env s) = None \<and>
      doc_embeddings (load_data env s) = None)
   \<or> (\<exists>model embs.
        embedding_model (load_data env s) = Some model \<and>
        doc_embeddings (load_data env s) = Some embs \<and>
        length embs = length (company_data (load_data env s)) \<and>
        (\<forall>d\<in>set (company_data (load_data env s)).
            d ''title'' \<noteq> None \<and> d ''content'' \<noteq> None) \<and>
        (\<forall>row\<in>set embs. \<exists>text. row = model text))"
  by (auto simp: load_data_def load_failed_def split: sum.splits dest: doc_texts_fields)

subsection \<open>The example data, evaluated\<close>

lemma example_library_fields:
  "str_lower example_library = ascii_lower"
  "np_dot example_library = (\<lambda>u v. sum_list (map2 (*) u v))"
  "np_norm example_library = (\<lambda>v. sqrt (sum_list (map (\<lambda>x. x * x) v)))"
  "np_multiply example_library = (*)"
  "np_add example_library = absorbing_add"
  "np_divide example_library = (/)"
  "np_argsort example_library = insertion_argsort"
  by (simp_all add: example_library_def)

lemma example_library_contract: "argsort_contract (np_argsort example_library)"
  by (simp add: example_library_fields insertion_argsort_contract)

lemma sqrt_16: "sqrt 16 = 4"
  by (rule real_sqrt_unique) simp_all

lemma sqrt_4: "sqrt 4 = 2"
  by (rule real_sqrt_unique) simp_all

lemma example_cosines:
  "cosine_similarity example_library [1, 0, 0, 0] [1, 0, 0, 0] = 1"
  "cosine_similarity example_library [2, 2, 2, 2] [1, 0, 0, 0] = 1 / 2"
  "cosine_similarity example_library [1, 0, 0, 0] [2, 2, 2, 2] = 1 / 2"
  "cosine_similarity example_library [2, 2, 2, 2] [2, 2, 2, 2] = 1"
  "cosine_similarity example_library [2, 0, 0, 0] [1, 0, 0, 0] = 1"
  by (simp_all add: cosine_similarity_def example_library_fields absorbing_add_def sqrt_16 sqrt_4)

lemma example_docs_fields:
  "profile_doc ''title'' = Some ''Company Profile''"
  "profile_doc ''content'' = Some ''TechCorp was founded in 2010''"
  "profile_doc ''id'' = Some ''1''"
  "products_doc ''title'' = Some ''Products''"
  "products_doc ''content'' = Some ''TechCorp offers TechAssist''"
  "products_doc ''id'' = Some ''2''"
  "history_doc ''title'' = Some ''History''"
  "history_doc ''content'' = Some ''Two engineers founded it''"
  "history_doc ''id'' = Some ''3''"
  "broken_doc ''title'' = Some ''Untitled''"
  "broken_doc ''content'' = None"
  by (simp_all add: profile_doc_def products_doc_def history_doc_def broken_doc_def)

lemma toy_model_values:
  "toy_model ''When was TechCorp founded?'' = [1, 0, 0, 0]"
  "toy_model ''founded'' = [1, 0, 0, 0]"
  "toy_model [] = [2, 2, 2, 2]"
  by (simp_all add: toy_model_def)

lemma example_lower:
  "ascii_lower ''TECHCORP'' = ''techcorp''"
  "ascii_lower ''PRODUCTS'' = ''products''"
  "ascii_lower ''Company Profile'' = ''company profile''"
  "ascii_lower ''TechCorp was founded in 2010'' = ''techcorp was founded in 2010''"
  "ascii_lower ''Products'' = ''products''"
  "ascii_lower ''TechCorp offers TechAssist'' = ''techcorp offers techassist''"
  "ascii_lower [] = []"
  by code_simp+

lemma example_docs_distinct:
  "profile_doc \<noteq> history_doc" "profile_doc \<noteq> products_doc"
proof -
  have "profile_doc ''id'' \<noteq> history_doc ''id''" "profile_doc ''id'' \<noteq> products_doc ''id''"
    by (simp_all add: example_docs_fields)
  then show "profile_doc \<noteq> history_doc" "profile_doc \<noteq> products_doc" by auto
qed

lemma example_server_hyps:
  "embedding_model example_server = Some toy_model"
  "doc_embeddings example_server = Some [[1, 0, 0, 0], [2, 2, 2, 2]]"
  "length [[1, 0, 0, 0], [2, 2, 2, 2 :: real]] = length (company_data example_server)"
  "\<forall>row\<in>set [[1, 0, 0, 0], [2, 2, 2, 2]]. length row = length (toy_model q)"
  "\<forall>d\<in>set (company_data example_server). d ''title'' \<noteq> None"
  "company_data example_server \<noteq> []"
  by (simp_all add: example_server_def toy_model_def example_docs_fields)

lemma ties_server_hyps:
  "embedding_model ties_server = Some toy_model"
  "doc_embeddings ties_server = Some [[1, 0, 0, 0], [1, 0, 0, 0]]"
  "length [[1, 0, 0, 0], [1, 0, 0, 0 :: real]] = length (company_data ties_server)"
  "\<forall>row\<in>set [[1, 0, 0, 0], [1, 0, 0, 0]]. length row = length (toy_model q)"
  "\<forall>d\<in>set (company_data ties_server). d ''title'' \<noteq> None"
  "company_data ties_server \<noteq> []"
  by (simp_all add: ties_server_def toy_model_def example_docs_fields)

lemma keyword_server_hyps:
  "embedding_model keyword_server = None \<or> doc_embeddings keyword_server = None"
  "\<forall>d\<in>set (company_data keyword_server).
      d ''title'' \<noteq> None \<and> d ''content'' \<noteq> None \<and> d ''id'' \<noteq> None"
  by (simp_all add: keyword_server_def example_docs_fields)

lemma example_server_loaded: "init example_env ''company_data.json'' = example_server"
  by (simp add: init_def load_data_def example_env_def example_files_def example_server_def
      getitem_def example_docs_fields toy_model_def)

lemma ties_server_loaded: "init example_env ''ties.json'' = ties_server"
  by (simp add: init_def load_data_def example_env_def example_files_def ties_server_def
      getitem_def example_docs_fields toy_model_def)

lemma empty_server_loaded: "init example_env ''empty.json'' = empty_server"
  by (simp add: init_def load_data_def example_env_def example_files_def empty_server_def)

lemmas search_eval =
  search_data_def toy_model_values getitem_def example_docs_fields similarities_def
  example_library_fields absorbing_add_def sqrt_16 sqrt_4
  top_indices_def slice_to_def insertion_argsort_def upt_rec

lemma example_search_first:
  "search_data example_library example_server ''When was TechCorp founded?'' 1 (3 / 10) =
     Inr [profile_doc]"
  by (simp add: example_server_def search_eval)

lemma example_search_all:
  "search_data example_library example_server ''When was TechCorp founded?'' 3 (3 / 10) =
     Inr [profile_doc, products_doc]"
  by (simp add: example_server_def search_eval)


lemma example_search_empty_query:
  "search_data example_library example_server [] 3 (3 / 10) = Inr [products_doc, profile_doc]"
  by (simp add: example_server_def search_eval)

lemma scaled_search:
  "search_data example_library scaled_server ''founded'' 1 (3 / 10) = Inr [products_doc]"
  by (simp add: scaled_server_def search_eval)

lemma ties_search:
  "search_data example_library ties_server ''founded'' 3 (3 / 10) =
     Inr [history_doc, profile_doc]"
  by (simp add: ties_server_def search_eval)

lemma keyword_search_example:
  "search_data example_library keyword_server ''TECHCORP'' 1 (3 / 10) =
     Inr [profile_doc, products_doc]"
  "search_data example_library keyword_server ''PRODUCTS'' 1 (3 / 10) = Inr [products_doc]"
  "search_data example_library keyword_server [] 1 (3 / 10) = Inr [profile_doc, products_doc]"
  by (simp_all add: search_data_def keyword_server_def getitem_def example_docs_fields
      example_lower example_library_fields)

section \<open>Ranking on the embedding path\<close>

text \<open>
  Claim C1.  In embedding mode (a model and the embeddings are there, one embedding per
  document, of the dimension of the encoded query) the search over a corpus of \<open>n \<ge> 1\<close>
  documents with \<open>top_k = k \<ge> 1\<close> returns exactly \<open>min k n\<close> documents.  They are the
  documents at pairwise different positions \<open>idxs\<close> of the corpus, in descending order
  of the cosine similarity \<open>(d \<cdot> q) / (\<parallel>d\<parallel> \<cdot> \<parallel>q\<parallel> + 1e-10)\<close> between their embedding and
  the encoded query, as the library computes it, and no document left out has a higher
  similarity than one returned.  This holds for every library whose \<open>argsort\<close> sorts;
  the debug output reads every title, so every document has one.
\<close>

theorem search_data_top_k:
  fixes lib :: "'f::linorder library"
  assumes "argsort_contract (np_argsort lib)"
    and "embedding_model s = Some model" and "doc_embeddings s = Some embs"
    and "length embs = length (company_data s)"
    and "\<forall>row\<in>set embs. length row = length (model q)"
    and "\<forall>d\<in>set (company_data s). d ''title'' \<noteq> None"
    and "company_data s \<noteq> []" and "1 \<le> k"
  shows "\<exists>idxs.
      search_data lib s q k t = Inr (map (\<lambda>i. company_data s ! i) idxs)
    \<and> int (length idxs) = min k (int (length (company_data s)))
    \<and> distinct idxs
    \<and> set idxs \<subseteq> {..<length (company_data s)}
    \<and> sorted_wrt (\<lambda>i j. cosine_similarity lib (embs ! j) (model q)
                          \<le> cosine_similarity lib (embs ! i) (model q)) idxs
    \<and> (\<forall>j<length (company_data s). j \<notin> set idxs \<longrightarrow>
          (\<forall>i\<in>set idxs. cosine_similarity lib (embs ! j) (model q)
                          \<le> cosine_similarity lib (embs ! i) (model q)))"
proof -
  define sims where "sims = map (\<lambda>row. cosine_similarity lib row (model q)) embs"
  define idxs where "idxs = top_indices lib sims k"
  have n: "length sims = length (company_data s)"
    using assms(4) by (simp add: sims_def)
  have nth: "sims ! i = cosine_similarity lib (embs ! i) (model q)"
    if "i < length (company_data s)" for i
    using that assms(4) by (simp add: sims_def)
  have sub: "set idxs \<subseteq> {..<length (company_data s)}"
    using top_indices_ranking(2) [OF assms(1), of sims k] by (simp add: idxs_def n)
  have "search_data lib s q k t = Inr (map (\<lambda>i. company_data s ! i) idxs)"
    unfolding idxs_def sims_def using assms(2-7) by (rule search_data_embedding)
  moreover have "int (length idxs) = min k (int (length (company_data s)))"
    using top_indices_length [OF assms(1), of k sims] assms(8) by (simp add: idxs_def n)
  moreover have "distinct idxs"
    unfolding idxs_def using assms(1) by (rule top_indices_ranking)
  moreover have "sorted_wrt (\<lambda>i j. cosine_similarity lib (embs ! j) (model q)
                          \<le> cosine_similarity lib (embs ! i) (model q)) idxs"
  proof (rule sorted_wrt_mono_rel
      [OF _ top_indices_ranking(3) [OF assms(1), of sims k, folded idxs_def]])
    fix i j
    assume "i \<in> set idxs" "j \<in> set idxs" "sims ! j \<le> sims ! i"
    with sub show "cosine_similarity lib (embs ! j) (model q)
                          \<le> cosine_similarity lib (embs ! i) (model q)"
      by (auto simp: nth subset_eq)
  qed
  moreover have "cosine_similarity lib (embs ! j) (model q)
                   \<le> cosine_similarity lib (embs ! i) (model q)"
    if "j < length (company_data s)" "j \<notin> set idxs" "i \<in> set idxs" for i j
  proof -
    have "sims ! j \<le> sims ! i"
      using top_indices_ranking(4) [OF assms(1), of i sims k j] that by (simp add: idxs_def n)
    with sub that show ?thesis by (auto simp: nth subset_eq)
  qed
  ultimately show ?thesis using sub by blast
qed

theorem search_data_top_k_witness:
  "(\<exists>idxs.
      search_data example_library example_server ''When was TechCorp founded?'' 1 (3 / 10) =
        Inr (map (\<lambda>i. company_data example_server ! i) idxs)
    \<and> int (length idxs) = min 1 (int (length (company_data example_server)))
    \<and> distinct idxs
    \<and> set idxs \<subseteq> {..<length (company_data example_server)}
    \<and> sorted_wrt (\<lambda>i j. cosine_similarity example_library ([[1, 0, 0, 0], [2, 2, 2, 2]] ! j)
                            (toy_model ''When was TechCorp founded?'')
                          \<le> cosine_similarity example_library ([[1, 0, 0, 0], [2, 2, 2, 2]] ! i)
                            (toy_model ''When was TechCorp founded?'')) idxs
    \<and> (\<forall>j<length (company_data example_server). j \<notin> set idxs \<longrightarrow>
          (\<forall>i\<in>set idxs.
              cosine_similarity example_library ([[1, 0, 0, 0], [2, 2, 2, 2]] ! j)
                (toy_model ''When was TechCorp founded?'')
              \<le> cosine_similarity example_library ([[1, 0, 0, 0], [2, 2, 2, 2]] ! i)
                (toy_model ''When was TechCorp founded?''))))
   \<and> search_data example_library example_server ''When was TechCorp founded?'' 1 (3 / 10) =
       Inr [profile_doc]
   \<and> cosine_similarity example_library [1, 0, 0, 0] [1, 0, 0, 0] = 1
   \<and> cosine_similarity example_library [2, 2, 2, 2] [1, 0, 0, 0] = 1 / 2
   \<and> np_dot example_library [1, 0, 0, 0] [1, 0, 0, 0] = 1
   \<and> np_dot example_library [2, 2, 2, 2] [1, 0, 0, 0] = 2
   \<and> search_data example_library scaled_server ''founded'' 1 (3 / 10) = Inr [products_doc]
   \<and> init example_env ''company_data.json'' = example_server"
proof -
  have k: "(1::int) \<le> 1" by simp
  have dots: "np_dot example_library [1, 0, 0, 0] [1, 0, 0, 0] = 1"
    "np_dot example_library [2, 2, 2, 2] [1, 0, 0, 0] = 2"
    by (simp_all add: example_library_fields)
  show ?thesis
    using search_data_top_k
        [where q = "''When was TechCorp founded?''" and t = "3 / 10",
          OF example_library_contract example_server_hyps k]
      example_search_first example_cosines(1,2) dots scaled_search example_server_loaded
    by simp
qed

section \<open>The similarity threshold\<close>

text \<open>
  Claim C2.  For every server state, query and \<open>top_k\<close>, any two values of
  \<open>similarity_threshold\<close> give the same outcome of \<open>search_data\<close>: the same documents in
  the same order, or the same exception.
\<close>

theorem search_data_threshold_unused:
  "search_data lib s q top_k t1 = search_data lib s q top_k t2"
  by (simp add: search_data_def)

section \<open>The keyword path\<close>

text \<open>
  Claim C3.  Without a model or without embeddings, and with \<open>title\<close> and \<open>content\<close> in
  every document, a document of the corpus is in the result exactly when the query,
  lowered by \<open>str.lower\<close>, is a substring of its lowered title or of its lowered content.
  The result is the corpus restricted to these documents: in corpus order, and whatever
  \<open>top_k\<close> is.  Case does not count: a query with the same lowered text has the same
  result.
\<close>

theorem keyword_fallback_contract:
  assumes "embedding_model s = None \<or> doc_embeddings s = None"
    and "\<forall>d\<in>set (company_data s). d ''title'' \<noteq> None \<and> d ''content'' \<noteq> None"
  shows "\<exists>found.
      search_data lib s q top_k t = Inr found
    \<and> (\<forall>d\<in>set (company_data s).
          d \<in> set found \<longleftrightarrow>
            sublist (str_lower lib q) (str_lower lib (the (d ''title''))) \<or>
            sublist (str_lower lib q) (str_lower lib (the (d ''content''))))
    \<and> found = filter (\<lambda>d. d \<in> set found) (company_data s)
    \<and> (\<forall>q'. str_lower lib q' = str_lower lib q \<longrightarrow>
          search_data lib s q' top_k t = Inr found)"
proof -
  define P where "P = (\<lambda>d::document.
      str_in (str_lower lib q) (str_lower lib (the (d ''title''))) \<or>
      str_in (str_lower lib q) (str_lower lib (the (d ''content''))))"
  define found where "found = filter P (company_data s)"
  have search: "search_data lib s q' top_k t = Inr found"
    if "str_lower lib q' = str_lower lib q" for q'
    using assms that by (simp add: search_data_keyword keyword_search_filter found_def P_def)
  have "search_data lib s q top_k t = Inr found"
    by (rule search) simp
  moreover have "\<forall>d\<in>set (company_data s).
          d \<in> set found \<longleftrightarrow>
            sublist (str_lower lib q) (str_lower lib (the (d ''title''))) \<or>
            sublist (str_lower lib q) (str_lower lib (the (d ''content'')))"
    by (simp add: found_def P_def str_in_iff_sublist)
  moreover have "found = filter (\<lambda>d. d \<in> set found) (company_data s)"
    unfolding found_def by (rule filter_cong) simp_all
  ultimately show ?thesis using search by blast
qed

theorem keyword_fallback_contract_witness:
  "(\<exists>found.
      search_data example_library keyword_server ''TECHCORP'' 1 (3 / 10) = Inr found
    \<and> (\<forall>d\<in>set (company_data keyword_server).
          d \<in> set found \<longleftrightarrow>
            sublist (str_lower example_library ''TECHCORP'')
              (str_lower example_library (the (d ''title''))) \<or>
            sublist (str_lower example_library ''TECHCORP'')
              (str_lower example_library (the (d ''content''))))
    \<and> found = filter (\<lambda>d. d \<in> set found) (company_data keyword_server)
    \<and> (\<forall>q'. str_lower example_library q' = str_lower example_library ''TECHCORP'' \<longrightarrow>
          search_data example_library keyword_server q' 1 (3 / 10) = Inr found))
   \<and> search_data example_library keyword_server ''TECHCORP'' 1 (3 / 10) =
       Inr [profile_doc, products_doc]
   \<and> search_data example_library keyword_server ''PRODUCTS'' 1 (3 / 10) = Inr [products_doc]
   \<and> str_lower example_library ''TECHCORP'' = ''techcorp''
   \<and> str_lower example_library ''TechCorp offers TechAssist'' = ''techcorp offers techassist''"
proof -
  have h2: "\<forall>d\<in>set (company_data keyword_server). d ''title'' \<noteq> None \<and> d ''content'' \<noteq> None"
    using keyword_server_hyps(2) by simp
  have low: "str_lower example_library ''TECHCORP'' = ''techcorp''"
    "str_lower example_library ''TechCorp offers TechAssist'' = ''techcorp offers techassist''"
    by (simp_all add: example_library_fields example_lower)
  show ?thesis
    using keyword_fallback_contract
        [OF keyword_server_hyps(1) h2, of example_library "''TECHCORP''" 1 "3 / 10"]
      keyword_search_example(1,2) low
    by (intro conjI)
qed

section \<open>The formatter\<close>

text \<open>
  Claim C4.  \<open>format_for_llm\<close> returns the literal text
  \<open>No relevant company information found.\<close> exactly when the response is absent or its
  results are absent or empty.  Otherwise it returns \<open>COMPANY INFORMATION:\<close> and two line
  feeds, followed for each result, in order, by \<open>--- title ---\<close>, a line feed, the content
  and two line feeds.  For the results T1/C1 and T2/C2 this is the text of the last
  conjunct.
\<close>

theorem format_for_llm_contract:
  "(format_for_llm resp = ''No relevant company information found.'' \<longleftrightarrow>
      resp = None \<or> (\<exists>r. resp = Some r \<and> (results r = None \<or> results r = Some [])))
   \<and> (\<forall>r rs. resp = Some r \<and> results r = Some rs \<and> rs \<noteq> [] \<longrightarrow>
        format_for_llm resp =
          ''COMPANY INFORMATION:\<newline>\<newline>'' @
          concat (map (\<lambda>e. ''--- '' @ title e @ '' ---\<newline>'' @ content e @ ''\<newline>\<newline>'') rs))
   \<and> format_for_llm
        (Some \<lparr>results = Some [\<lparr>title = ''T1'', content = ''C1'', source = s1\<rparr>,
                                \<lparr>title = ''T2'', content = ''C2'', source = s2\<rparr>],
               query = q, total_results = n\<rparr>) =
       ''COMPANY INFORMATION:\<newline>\<newline>--- T1 ---\<newline>C1\<newline>\<newline>--- T2 ---\<newline>C2\<newline>\<newline>''"
proof (intro conjI allI impI)
  show "format_for_llm resp = ''No relevant company information found.'' \<longleftrightarrow>
      resp = None \<or> (\<exists>r. resp = Some r \<and> (results r = None \<or> results r = Some []))"
  proof (cases resp)
    case None
    then show ?thesis by (simp add: format_for_llm_def no_info_def)
  next
    case (Some r)
    show ?thesis
    proof (cases "results r")
      case None
      with Some show ?thesis by (simp add: format_for_llm_def no_info_def)
    next
      case inner: (Some rs)
      show ?thesis
      proof (cases "rs = []")
        case True
        with Some inner show ?thesis by (simp add: format_for_llm_def no_info_def)
      next
        case False
        with Some inner have "format_for_llm resp = header @ concat (map entry_text rs)"
          by (simp add: format_for_llm_nonempty)
        then have "format_for_llm resp \<noteq> ''No relevant company information found.''"
          by (simp add: header_text)
        with Some inner False show ?thesis by simp
      qed
    qed
  qed
next
  fix r rs
  assume "resp = Some r \<and> results r = Some rs \<and> rs \<noteq> []"
  then have "format_for_llm resp = header @ concat (map entry_text rs)"
    by (simp add: format_for_llm_nonempty)
  then show "format_for_llm resp =
          ''COMPANY INFORMATION:\<newline>\<newline>'' @
          concat (map (\<lambda>e. ''--- '' @ title e @ '' ---\<newline>'' @ content e @ ''\<newline>\<newline>'') rs)"
    by (simp add: header_text entry_text_text)
next
  show "format_for_llm
        (Some \<lparr>results = Some [\<lparr>title = ''T1'', content = ''C1'', source = s1\<rparr>,
                                \<lparr>title = ''T2'', content = ''C2'', source = s2\<rparr>],
               query = q, total_results = n\<rparr>) =
       ''COMPANY INFORMATION:\<newline>\<newline>--- T1 ---\<newline>C1\<newline>\<newline>--- T2 ---\<newline>C2\<newline>\<newline>''"
    by (simp add: format_for_llm_def header_text entry_text_text)
qed

theorem format_for_llm_contract_witness:
  "format_for_llm (Some \<lparr>results = Some [\<lparr>title = ''Products'', content = ''TechAssist'',
                                          source = ''Company Database - 2''\<rparr>],
                         query = ''products'', total_results = 1\<rparr>) =
     ''COMPANY INFORMATION:\<newline>\<newline>--- Products ---\<newline>TechAssist\<newline>\<newline>''
   \<and> format_for_llm (Some \<lparr>results = Some [\<lparr>title = ''Products'', content = ''TechAssist'',
                                          source = ''Company Database - 2''\<rparr>],
                         query = ''products'', total_results = 1\<rparr>) \<noteq>
     ''No relevant company information found.''
   \<and> format_for_llm (Some \<lparr>results = Some [], query = ''x'', total_results = 0\<rparr>) =
     ''No relevant company information found.''
   \<and> format_for_llm None = ''No relevant company information found.''"
  using
    format_for_llm_contract
      [of "Some \<lparr>results = Some [\<lparr>title = ''Products'', content = ''TechAssist'',
                                  source = ''Company Database - 2''\<rparr>],
                 query = ''products'', total_results = 1\<rparr>"]
    format_for_llm_contract [of "Some \<lparr>results = Some [], query = ''x'', total_results = 0\<rparr>"]
    format_for_llm_contract [of None]
  by simp

section \<open>The request handler\<close>

text \<open>
  Claim C5.  For a request with a string under \<open>query\<close>, \<open>handle_request\<close> searches for
  that string with \<open>top_k = 3\<close> and the threshold \<open>0.3\<close>.  An exception of the search is
  the exception of the handler.  When the search returns documents that carry \<open>title\<close>,
  \<open>content\<close> and \<open>id\<close>, the handler returns the envelope whose results are these
  documents in order, each as its title, its content and the source
  \<open>Company Database - \<close> followed by its id; whose query is the input query; and whose
  \<open>total_results\<close> is the number of results.
\<close>

theorem handle_request_envelope:
  assumes "request ''query'' = Some q"
  shows "(\<forall>e. search_data lib s q 3 (3 / 10) = Inl e \<longrightarrow> handle_request lib s request = Inl e)
    \<and> (\<forall>found. search_data lib s q 3 (3 / 10) = Inr found \<and>
          (\<forall>d\<in>set found. d ''title'' \<noteq> None \<and> d ''content'' \<noteq> None \<and> d ''id'' \<noteq> None) \<longrightarrow>
          handle_request lib s request =
            Inr \<lparr>results =
                   Some (map (\<lambda>d. \<lparr>title = the (d ''title''), content = the (d ''content''),
                                    source = ''Company Database - '' @ the (d ''id'')\<rparr>) found),
                 query = q, total_results = int (length found)\<rparr>)
    \<and> (\<forall>resp. handle_request lib s request = Inr resp \<longrightarrow>
          query resp = q \<and>
          (\<exists>rs. results resp = Some rs \<and> total_results resp = int (length rs)))"
proof (intro conjI allI impI)
  fix e
  assume "search_data lib s q 3 (3 / 10) = Inl e"
  with assms show "handle_request lib s request = Inl e"
    by (simp add: handle_request_def)
next
  fix found
  assume "search_data lib s q 3 (3 / 10) = Inr found \<and>
          (\<forall>d\<in>set found. d ''title'' \<noteq> None \<and> d ''content'' \<noteq> None \<and> d ''id'' \<noteq> None)"
  with assms show "handle_request lib s request =
            Inr \<lparr>results =
                   Some (map (\<lambda>d. \<lparr>title = the (d ''title''), content = the (d ''content''),
                                    source = ''Company Database - '' @ the (d ''id'')\<rparr>) found),
                 query = q, total_results = int (length found)\<rparr>"
    by (simp add: handle_request_def format_results_present entry_of_def [abs_def])
next
  fix resp
  assume "handle_request lib s request = Inr resp"
  with assms show "query resp = q"
    by (auto simp: handle_request_def split: sum.splits)
next
  fix resp
  assume "handle_request lib s request = Inr resp"
  with assms show "\<exists>rs. results resp = Some rs \<and> total_results resp = int (length rs)"
    by (auto simp: handle_request_def split: sum.splits)
qed

theorem handle_request_envelope_witness:
  "handle_request example_library example_server
     [''query'' \<mapsto> ''When was TechCorp founded?'', ''type'' \<mapsto> ''company_data''] =
   Inr \<lparr>results =
          Some [\<lparr>title = ''Company Profile'', content = ''TechCorp was founded in 2010'',
                 source = ''Company Database - 1''\<rparr>,
                \<lparr>title = ''Products'', content = ''TechCorp offers TechAssist'',
                 source = ''Company Database - 2''\<rparr>],
        query = ''When was TechCorp founded?'', total_results = 2\<rparr>"
proof -
  have q: "[''query'' \<mapsto> ''When was TechCorp founded?'', ''type'' \<mapsto> ''company_data''] ''query''
             = Some ''When was TechCorp founded?''"
    by simp
  have f: "\<forall>d\<in>set [profile_doc, products_doc].
             d ''title'' \<noteq> None \<and> d ''content'' \<noteq> None \<and> d ''id'' \<noteq> None"
    by (simp add: example_docs_fields)
  show ?thesis
    using handle_request_envelope
        [where request = "[''query'' \<mapsto> ''When was TechCorp founded?'',
                          ''type'' \<mapsto> ''company_data'']"
          and q = "''When was TechCorp founded?''" and s = example_server
          and lib = example_library]
      q example_search_all f
    by (simp add: example_docs_fields)
qed

section \<open>Failures while loading\<close>

text \<open>
  Claim C6.  When loading fails (the file cannot be opened or parsed, the model cannot
  be constructed, or a record lacks a field the document texts are built from) the
  server is left with an empty corpus, no model and no embeddings, and from then on
  \<open>search_data\<close> returns the empty list for every query, \<open>top_k\<close> and threshold: it never
  raises.
\<close>

theorem load_failure_is_silent:
  assumes "(\<exists>e. json_load env (data_path s) = Inl e)
         \<or> (\<exists>e. sentence_transformer env = Inl e)
         \<or> (\<exists>docs e. json_load env (data_path s) = Inr docs \<and> doc_texts docs = Inl e)"
  shows "company_data (load_data env s) = []
       \<and> embedding_model (load_data env s) = None
       \<and> doc_embeddings (load_data env s) = None
       \<and> (\<forall>q top_k t. search_data lib (load_data env s) q top_k t = Inr [])"
proof -
  have "load_data env s = load_failed s"
    using assms by (auto simp: load_data_def split: sum.splits)
  then show ?thesis
    by (simp add: load_failed_def search_data_def)
qed

theorem load_failure_is_silent_witness:
  "search_data example_library (init example_env ''missing.json'') ''TechCorp'' 3 (3 / 10) = Inr []
   \<and> search_data example_library (init example_env ''garbled.json'') ''TechCorp'' 3 (3 / 10) = Inr []
   \<and> search_data example_library (init example_env ''broken.json'') ''TechCorp'' 3 (3 / 10) = Inr []
   \<and> search_data example_library (init offline_env ''company_data.json'') ''TechCorp'' 3 (3 / 10)
       = Inr []
   \<and> company_data (init offline_env ''company_data.json'') = []"
proof -
  let ?s = "\<lambda>p. \<lparr>data_path = p, company_data = [], embedding_model = None,
                  doc_embeddings = None\<rparr> :: real server"
  have a: "\<exists>e. json_load example_env (data_path (?s ''missing.json'')) = Inl e"
    and b: "\<exists>e. json_load example_env (data_path (?s ''garbled.json'')) = Inl e"
    by (simp_all add: example_env_def example_files_def)
  have c: "\<exists>docs e. json_load example_env (data_path (?s ''broken.json'')) = Inr docs \<and>
             doc_texts docs = Inl e"
    by (simp add: example_env_def example_files_def getitem_def example_docs_fields)
  have d: "\<exists>e. sentence_transformer offline_env = Inl e"
    by (simp add: offline_env_def)
  show ?thesis
    using load_failure_is_silent [of example_env "?s ''missing.json''" example_library] a
      load_failure_is_silent [of example_env "?s ''garbled.json''" example_library] b
      load_failure_is_silent [of example_env "?s ''broken.json''" example_library] c
      load_failure_is_silent [of offline_env "?s ''company_data.json''" example_library] d
    unfolding init_def by blast
qed

section \<open>Ties\<close>

text \<open>
  Claim C7, as stated, fails: two documents with the same embedding, loaded from a
  file, come back in the reverse of their corpus order.
\<close>

theorem tie_order_counterexample:
  "init example_env ''ties.json'' = ties_server
   \<and> company_data ties_server = [profile_doc, history_doc]
   \<and> doc_embeddings ties_server = Some [[1, 0, 0, 0], [1, 0, 0, 0]]
   \<and> search_data example_library ties_server ''founded'' 3 (3 / 10) =
       Inr [history_doc, profile_doc]
   \<and> search_data example_library ties_server ''founded'' 3 (3 / 10) \<noteq>
       Inr [profile_doc, history_doc]"
  using ties_search example_docs_distinct(1) ties_server_loaded by (simp add: ties_server_def)

text \<open>
  Claim C7, amended.  In embedding mode the code fixes no order among documents of equal
  cosine similarity: the documents come back in the reverse of the order in which
  \<open>np.argsort\<close> lists their positions.  Where \<open>np.argsort\<close> lists equal scores in ascending
  position, tied documents are therefore returned in descending position; ascending
  corpus order of ties is not guaranteed.
\<close>

theorem tie_order_follows_argsort:
  fixes lib :: "'f::linorder library"
  assumes "argsort_contract (np_argsort lib)"
    and "embedding_model s = Some model" and "doc_embeddings s = Some embs"
    and "length embs = length (company_data s)"
    and "\<forall>row\<in>set embs. length row = length (model q)"
    and "\<forall>d\<in>set (company_data s). d ''title'' \<noteq> None"
    and "company_data s \<noteq> []"
  shows "\<exists>idxs order.
      order = np_argsort lib (map (\<lambda>d. cosine_similarity lib d (model q)) embs)
    \<and> search_data lib s q k t = Inr (map (\<lambda>i. company_data s ! i) idxs)
    \<and> distinct idxs
    \<and> set idxs \<subseteq> {..<length (company_data s)}
    \<and> (\<forall>a b. a < b \<and> b < length idxs \<longrightarrow>
          (\<exists>i j. i < j \<and> j < length order \<and> order ! i = idxs ! b \<and> order ! j = idxs ! a))
    \<and> (ties_in_index_order (map (\<lambda>d. cosine_similarity lib d (model q)) embs) order \<longrightarrow>
          (\<forall>a b. a < b \<and> b < length idxs \<and>
                  cosine_similarity lib (embs ! (idxs ! a)) (model q) =
                  cosine_similarity lib (embs ! (idxs ! b)) (model q) \<longrightarrow>
                  idxs ! b < idxs ! a))"
proof -
  define sims where "sims = map (\<lambda>row. cosine_similarity lib row (model q)) embs"
  define order where "order = np_argsort lib sims"
  define idxs where "idxs = top_indices lib sims k"
  have n: "length sims = length (company_data s)"
    using assms(4) by (simp add: sims_def)
  have nth: "sims ! i = cosine_similarity lib (embs ! i) (model q)"
    if "i < length (company_data s)" for i
    using that assms(4) by (simp add: sims_def)
  have sub: "set idxs \<subseteq> {..<length (company_data s)}"
    using top_indices_ranking(2) [OF assms(1), of sims k] by (simp add: idxs_def n)
  obtain m where take: "idxs = take m (rev order)"
    unfolding idxs_def order_def top_indices_take by blast
  have pos: "\<exists>i j. i < j \<and> j < length order \<and> order ! i = idxs ! b \<and> order ! j = idxs ! a"
    if "a < b" "b < length idxs" for a b
  proof -
    from that take have b: "b < m" "b < length order" by simp_all
    with that have a: "a < m" "a < length order" by simp_all
    have "idxs ! a = order ! (length order - Suc a)" "idxs ! b = order ! (length order - Suc b)"
      using a b by (simp_all add: take rev_nth)
    moreover have "length order - Suc b < length order - Suc a" "length order - Suc a < length order"
      using that(1) b(2) by simp_all
    ultimately show ?thesis by metis
  qed
  have search: "search_data lib s q k t = Inr (map (\<lambda>i. company_data s ! i) idxs)"
    unfolding idxs_def sims_def using assms(2-7) by (rule search_data_embedding)
  have dist: "distinct idxs"
    unfolding idxs_def using assms(1) by (rule top_indices_ranking)
  have desc: "idxs ! b < idxs ! a"
    if stable: "ties_in_index_order sims order"
      and ab: "a < b" "b < length idxs"
      and tie: "cosine_similarity lib (embs ! (idxs ! a)) (model q) =
        cosine_similarity lib (embs ! (idxs ! b)) (model q)" for a b
  proof -
    obtain i j where ij: "i < j" "j < length order" "order ! i = idxs ! b" "order ! j = idxs ! a"
      using pos [OF ab] by blast
    have "idxs ! a < length (company_data s)" "idxs ! b < length (company_data s)"
      using sub ab by (auto simp: subset_eq)
    with tie have "sims ! (idxs ! b) = sims ! (idxs ! a)" by (simp add: nth)
    moreover have "sims ! (order ! i) = sims ! (order ! j) \<longrightarrow> order ! i < order ! j"
      using stable ij(1,2) by (simp add: ties_in_index_order_def sorted_wrt_iff_nth_less)
    ultimately show ?thesis using ij(3,4) by simp
  qed
  show ?thesis
    unfolding sims_def [symmetric]
  proof (intro exI conjI)
    show "order = np_argsort lib sims" by (simp add: order_def)
    show "search_data lib s q k t = Inr (map (\<lambda>i. company_data s ! i) idxs)" by (rule search)
    show "distinct idxs" by (rule dist)
    show "set idxs \<subseteq> {..<length (company_data s)}" by (rule sub)
    show "\<forall>a b. a < b \<and> b < length idxs \<longrightarrow>
          (\<exists>i j. i < j \<and> j < length order \<and> order ! i = idxs ! b \<and> order ! j = idxs ! a)"
      using pos by simp
    show "ties_in_index_order sims order \<longrightarrow>
          (\<forall>a b. a < b \<and> b < length idxs \<and>
                  cosine_similarity lib (embs ! (idxs ! a)) (model q) =
                  cosine_similarity lib (embs ! (idxs ! b)) (model q) \<longrightarrow>
                  idxs ! b < idxs ! a)"
      using desc by simp
  qed
qed

theorem tie_order_follows_argsort_witness:
  "(\<exists>idxs order.
      order = np_argsort example_library
                (map (\<lambda>d. cosine_similarity example_library d (toy_model ''founded''))
                   [[1, 0, 0, 0], [1, 0, 0, 0]])
    \<and> search_data example_library ties_server ''founded'' 3 (3 / 10) =
        Inr (map (\<lambda>i. company_data ties_server ! i) idxs)
    \<and> distinct idxs
    \<and> set idxs \<subseteq> {..<length (company_data ties_server)}
    \<and> (\<forall>a b. a < b \<and> b < length idxs \<longrightarrow>
          (\<exists>i j. i < j \<and> j < length order \<and> order ! i = idxs ! b \<and> order ! j = idxs ! a))
    \<and> (ties_in_index_order
          (map (\<lambda>d. cosine_similarity example_library d (toy_model ''founded''))
             [[1, 0, 0, 0], [1, 0, 0, 0]]) order \<longrightarrow>
          (\<forall>a b. a < b \<and> b < length idxs \<and>
                  cosine_similarity example_library
                    ([[1, 0, 0, 0], [1, 0, 0, 0]] ! (idxs ! a)) (toy_model ''founded'') =
                  cosine_similarity example_library
                    ([[1, 0, 0, 0], [1, 0, 0, 0]] ! (idxs ! b)) (toy_model ''founded'') \<longrightarrow>
                  idxs ! b < idxs ! a)))
   \<and> ties_in_index_order
       (map (\<lambda>d. cosine_similarity example_library d (toy_model ''founded''))
          [[1, 0, 0, 0], [1, 0, 0, 0]])
       (np_argsort example_library
          (map (\<lambda>d. cosine_similarity example_library d (toy_model ''founded''))
             [[1, 0, 0, 0], [1, 0, 0, 0]]))
   \<and> search_data example_library ties_server ''founded'' 3 (3 / 10) =
       Inr [history_doc, profile_doc]"
proof -
  have stable: "ties_in_index_order
       (map (\<lambda>d. cosine_similarity example_library d (toy_model ''founded''))
          [[1, 0, 0, 0], [1, 0, 0, 0]])
       (np_argsort example_library
          (map (\<lambda>d. cosine_similarity example_library d (toy_model ''founded''))
             [[1, 0, 0, 0], [1, 0, 0, 0]]))"
    by (simp add: ties_in_index_order_def toy_model_values example_cosines
        example_library_fields(7) insertion_argsort_def upt_rec)
  show ?thesis
    by (rule conjI
        [OF tie_order_follows_argsort
            [where q = "''founded''" and k = 3 and t = "3 / 10",
              OF example_library_contract ties_server_hyps]
          conjI [OF stable ties_search]])
qed

section \<open>Unusual arguments\<close>

subsection \<open>The empty query\<close>

text \<open>
  Where the empty query is served.  On the keyword path, with a title in every document
  and \<open>str.lower\<close> leaving the empty string empty, it matches every document: the result
  is the whole corpus.  On the embedding path over a corpus that is not empty, in a
  consistent state, the search returns a list.
\<close>

lemma empty_query_served:
  "((embedding_model s = None \<or> doc_embeddings s = None) \<and>
      (\<forall>d\<in>set (company_data s). d ''title'' \<noteq> None) \<and> str_lower lib [] = [] \<longrightarrow>
      search_data lib s [] top_k t = Inr (company_data s))
   \<and> (embedding_model s = Some model \<and> doc_embeddings s = Some embs \<and>
      length embs = length (company_data s) \<and>
      (\<forall>row\<in>set embs. length row = length (model [])) \<and>
      (\<forall>d\<in>set (company_data s). d ''title'' \<noteq> None) \<and> company_data s \<noteq> [] \<longrightarrow>
      (\<exists>found. search_data lib s [] top_k t = Inr found))"
proof (intro conjI impI)
  assume "(embedding_model s = None \<or> doc_embeddings s = None) \<and>
      (\<forall>d\<in>set (company_data s). d ''title'' \<noteq> None) \<and> str_lower lib [] = []"
  then show "search_data lib s [] top_k t = Inr (company_data s)"
    by (simp add: search_data_keyword keyword_search_empty_query)
next
  assume h: "embedding_model s = Some model \<and> doc_embeddings s = Some embs \<and>
      length embs = length (company_data s) \<and>
      (\<forall>row\<in>set embs. length row = length (model [])) \<and>
      (\<forall>d\<in>set (company_data s). d ''title'' \<noteq> None) \<and> company_data s \<noteq> []"
  then have "search_data lib s [] top_k t =
      Inr (map (\<lambda>i. company_data s ! i)
             (top_indices lib (map (\<lambda>row. cosine_similarity lib row (model [])) embs) top_k))"
    by (intro search_data_embedding) simp_all
  then show "\<exists>found. search_data lib s [] top_k t = Inr found"
    by blast
qed

text \<open>
  Claim C8.  The claim says that no exception propagates from \<open>search_data\<close> for the empty
  query.  On the server loaded from a corpus file that holds the empty list, with the
  model available, the embeddings are the array of shape \<open>(0,)\<close> and line 50 raises
  \<open>ValueError\<close>, for the empty query as for every other, whatever the library computes.
\<close>

theorem empty_query_raises_on_empty_corpus:
  "init example_env ''empty.json'' = empty_server
   \<and> search_data lib (init example_env ''empty.json'') [] top_k t = Inl ValueError"
  by (simp add: empty_server_loaded search_data_no_rows empty_server_def)

subsection \<open>A \<open>top_k\<close> that is not positive\<close>



subsection \<open>A request without a query\<close>

text \<open>
  Where a request without the key \<open>query\<close> is served.  The handler searches for the
  empty string: the query of every envelope it returns is empty, and whenever that
  search returns documents with all three fields the envelope holds exactly them.  On
  the keyword path (with \<open>str.lower\<close> leaving the empty string empty) the envelope holds
  the entire corpus; on the embedding path over a corpus that is not empty, in a
  consistent state, it holds the documents of the search for the empty string.
\<close>

lemma handle_request_default_query:
  fixes lib :: "'f::linorder library"
  assumes "request ''query'' = None"
  shows "(\<forall>found. search_data lib s [] 3 (3 / 10) = Inr found \<and>
          (\<forall>d\<in>set found. d ''title'' \<noteq> None \<and> d ''content'' \<noteq> None \<and> d ''id'' \<noteq> None) \<longrightarrow>
          handle_request lib s request =
            Inr \<lparr>results = Some (map entry_of found), query = [],
                 total_results = int (length found)\<rparr>)
    \<and> ((embedding_model s = None \<or> doc_embeddings s = None) \<and> str_lower lib [] = [] \<and>
        (\<forall>d\<in>set (company_data s).
            d ''title'' \<noteq> None \<and> d ''content'' \<noteq> None \<and> d ''id'' \<noteq> None) \<longrightarrow>
        handle_request lib s request =
          Inr \<lparr>results = Some (map entry_of (company_data s)), query = [],
               total_results = int (length (company_data s))\<rparr>)
    \<and> (argsort_contract (np_argsort lib) \<and>
        embedding_model s = Some model \<and> doc_embeddings s = Some embs \<and>
        length embs = length (company_data s) \<and>
        (\<forall>row\<in>set embs. length row = length (model [])) \<and> company_data s \<noteq> [] \<and>
        (\<forall>d\<in>set (company_data s).
            d ''title'' \<noteq> None \<and> d ''content'' \<noteq> None \<and> d ''id'' \<noteq> None) \<longrightarrow>
        (\<exists>found. search_data lib s [] 3 (3 / 10) = Inr found \<and>
           handle_request lib s request =
             Inr \<lparr>results = Some (map entry_of found), query = [],
                  total_results = int (length found)\<rparr>))
    \<and> (\<forall>resp. handle_request lib s request = Inr resp \<longrightarrow> query resp = [])"
proof (intro conjI allI impI)
  fix found
  assume "search_data lib s [] 3 (3 / 10) = Inr found \<and>
          (\<forall>d\<in>set found. d ''title'' \<noteq> None \<and> d ''content'' \<noteq> None \<and> d ''id'' \<noteq> None)"
  with assms show "handle_request lib s request =
            Inr \<lparr>results = Some (map entry_of found), query = [],
                 total_results = int (length found)\<rparr>"
    by (simp add: handle_request_def format_results_present)
next
  assume h: "(embedding_model s = None \<or> doc_embeddings s = None) \<and> str_lower lib [] = [] \<and>
        (\<forall>d\<in>set (company_data s).
            d ''title'' \<noteq> None \<and> d ''content'' \<noteq> None \<and> d ''id'' \<noteq> None)"
  then have "search_data lib s [] 3 (3 / 10) = Inr (company_data s)"
    by (simp add: search_data_keyword keyword_search_empty_query)
  with assms h show "handle_request lib s request =
          Inr \<lparr>results = Some (map entry_of (company_data s)), query = [],
               total_results = int (length (company_data s))\<rparr>"
    by (simp add: handle_request_def format_results_present)
next
  assume h: "argsort_contract (np_argsort lib) \<and>
        embedding_model s = Some model \<and> doc_embeddings s = Some embs \<and>
        length embs = length (company_data s) \<and>
        (\<forall>row\<in>set embs. length row = length (model [])) \<and> company_data s \<noteq> [] \<and>
        (\<forall>d\<in>set (company_data s).
            d ''title'' \<noteq> None \<and> d ''content'' \<noteq> None \<and> d ''id'' \<noteq> None)"
  define sims where "sims = map (\<lambda>row. cosine_similarity lib row (model [])) embs"
  define found where "found = map (\<lambda>i. company_data s ! i) (top_indices lib sims 3)"
  have search: "search_data lib s [] 3 (3 / 10) = Inr found"
    unfolding found_def sims_def using h by (intro search_data_embedding) simp_all
  have c: "argsort_contract (np_argsort lib)" using h by simp
  have "set (top_indices lib sims 3) \<subseteq> {..<length (company_data s)}"
    using top_indices_ranking(2) [OF c, of sims 3] h by (simp add: sims_def)
  then have "set found \<subseteq> set (company_data s)"
    by (auto simp: found_def subset_eq)
  with h have "\<forall>d\<in>set found. d ''title'' \<noteq> None \<and> d ''content'' \<noteq> None \<and> d ''id'' \<noteq> None"
    by blast
  with assms search have "handle_request lib s request =
             Inr \<lparr>results = Some (map entry_of found), query = [],
                  total_results = int (length found)\<rparr>"
    by (simp add: handle_request_def format_results_present)
  with search show "\<exists>found. search_data lib s [] 3 (3 / 10) = Inr found \<and>
           handle_request lib s request =
             Inr \<lparr>results = Some (map entry_of found), query = [],
                  total_results = int (length found)\<rparr>"
    by blast
next
  fix resp
  assume "handle_request lib s request = Inr resp"
  with assms show "query resp = []"
    by (auto simp: handle_request_def split: sum.splits)
qed

text \<open>
  Claim C10.  The claim says that \<open>handle_request\<close> does not raise for a request without
  the key \<open>query\<close>.  On the server loaded from a corpus file that holds the empty list,
  with the model available, the search for the empty string raises \<open>ValueError\<close> in
  line 50 and the handler passes it on.
\<close>

theorem handle_request_raises_on_empty_corpus:
  "[''type'' \<mapsto> ''company_data''] ''query'' = None
   \<and> init example_env ''empty.json'' = empty_server
   \<and> handle_request lib (init example_env ''empty.json'') [''type'' \<mapsto> ''company_data''] =
       Inl ValueError"
  by (simp add: empty_server_loaded handle_request_def search_data_no_rows empty_server_def)

end
